theory Spec2Isabelle
  imports Complex_Main
begin

section \<open>ozwCurses.py: the ZWaveCommander terminal front end\<close>

text \<open>
  A shallow embedding of the class \<open>ZWaveCommander\<close> of \<open>ozwCurses.py\<close> (Python 2).
  The object's attributes are the fields of the record \<open>commander\<close>; a method that
  mutates \<open>self\<close> is a function from the state to the new state, and a method that can
  raise returns \<open>error + commander\<close>. The leading underscore of the Python names is
  dropped, since an Isabelle identifier starts with a letter.

  The terminal is not modelled as a character grid: every call the code makes on curses
  (on the screen, the list pad or the dialog pad) is appended, with its arguments, to the
  field \<open>curses\<close>; an error that curses itself would raise, for a position outside
  the window, is not modelled. Calls to the logger are left out. The driver wrapper is an
  environment the methods read; it is passed as the argument \<open>w\<close>.
\<close>

subsection \<open>Python built-ins used by the code\<close>

datatype error = ZeroDivisionError | OverflowError | ValueError | AttributeError

definition ord :: "char \<Rightarrow> int" where
  "ord c = of_char c"

text \<open>\<open>str.lower\<close> and \<open>str.upper\<close> on one character of a byte string (ASCII letters).\<close>

definition lower :: "char \<Rightarrow> char" where
  "lower c = (case map_of (zip ''ABCDEFGHIJKLMNOPQRSTUVWXYZ'' ''abcdefghijklmnopqrstuvwxyz'') c of
                Some l \<Rightarrow> l | None \<Rightarrow> c)"

definition upper :: "char \<Rightarrow> char" where
  "upper c = (case map_of (zip ''abcdefghijklmnopqrstuvwxyz'' ''ABCDEFGHIJKLMNOPQRSTUVWXYZ'') c of
                Some u \<Rightarrow> u | None \<Rightarrow> c)"

text \<open>
  \<open>'{0:<{width}}'.format(text, width=w)\<close>, and \<open>'{0:{width}}'\<close> on a string: the text
  padded with spaces on the right up to \<open>w\<close> characters, never cut. (Python refuses a
  negative width, and a width of 0 without \<open><\<close>, with a ValueError; the widths of a laid
  out screen, see \<open>laid_out\<close> below, are positive.)
\<close>

definition ljust :: "string \<Rightarrow> int \<Rightarrow> string" where
  "ljust text w = text @ replicate (nat (w - int (length text))) CHR '' ''"

definition rjust :: "string \<Rightarrow> int \<Rightarrow> string" where
  "rjust text w = replicate (nat (w - int (length text))) CHR '' '' @ text"

text \<open>\<open>str(n)\<close> of a natural number, in decimal.\<close>

fun digits :: "nat \<Rightarrow> string" where
  "digits n = (if n < 10 then [''0123456789'' ! n]
               else digits (n div 10) @ [''0123456789'' ! (n mod 10)])"

declare digits.simps [simp del]

definition str_int :: "int \<Rightarrow> string" where
  "str_int n = (if n < 0 then CHR ''-'' # digits (nat (- n)) else digits (nat n))"

text \<open>
  Python floats are idealised as real numbers: the rounding of IEEE doubles is not
  modelled. What is modelled is when an operation on floats raises. \<open>float(n)\<close> raises
  OverflowError when the integer rounds to \<open>2 ^ 1024\<close> or beyond, that is from
  \<open>2 ^ 1024 - 2 ^ 970\<close> on; the division raises ZeroDivisionError on a zero divisor;
  \<open>int(x)\<close> truncates towards zero and raises OverflowError on an infinity, which is
  what a product beyond the range of a double is.
\<close>

definition overflows :: "real \<Rightarrow> bool" where
  "overflows x \<longleftrightarrow> 2 ^ 1024 - 2 ^ 970 \<le> \<bar>x\<bar>"

definition py_float :: "int \<Rightarrow> error + real" where
  "py_float n = (if overflows (of_int n) then Inl OverflowError else Inr (of_int n))"

definition float_div :: "real \<Rightarrow> real \<Rightarrow> error + real" where
  "float_div a b = (if b = 0 then Inl ZeroDivisionError else Inr (a / b))"

definition trunc :: "real \<Rightarrow> int" where
  "trunc x = (if 0 \<le> x then \<lfloor>x\<rfloor> else \<lceil>x\<rceil>)"

definition py_int :: "real \<Rightarrow> error + int" where
  "py_int x = (if overflows x then Inl OverflowError else Inr (trunc x))"

definition round_half_even :: "real \<Rightarrow> int" where
  "round_half_even x =
     (let f = \<lfloor>x\<rfloor>; d = x - of_int f
      in if d < 1 / 2 then f else if 1 / 2 < d then f + 1 else if even f then f else f + 1)"

text \<open>\<open>'{0:4.0%}'.format(pct)\<close>: the percentage with no decimals, right-aligned in 4 columns.\<close>

definition fmt_pct :: "real \<Rightarrow> string" where
  "fmt_pct pct =
     rjust ((if pct < 0 then ''-'' else '''') @ digits (nat \<bar>round_half_even (pct * 100)\<bar>) @ ''%'') 4"

subsection \<open>The calls made on curses\<close>

datatype flag = A_BOLD | A_STANDOUT

text \<open>An attribute is \<open>curses.color_pair(n)\<close> or-ed with flags.\<close>

type_synonym attr = "nat \<times> flag list"

definition COLOR_NORMAL :: nat where "COLOR_NORMAL = 1"
definition COLOR_HEADER_NORMAL :: nat where "COLOR_HEADER_NORMAL = 2"
definition COLOR_HEADER_HI :: nat where "COLOR_HEADER_HI = 3"
definition COLOR_ERROR :: nat where "COLOR_ERROR = 4"
definition COLOR_OK :: nat where "COLOR_OK = 7"

datatype call =
    Flash
  | ScreenClear
  | ScreenRefresh
  | ScreenMove int int
  | ScreenAddStr string attr
  | ScreenAddStrAt int int string attr
  | NewListPad int int
  | ListPadAddStr int int string attr
  | ListPadRefresh int int int int int int
  | DialogAddCh int int char attr
  | DialogAddStr int int string attr
  | DialogRefresh int int int int int int

subsection \<open>The state\<close>

record padcoords =
  sminrow :: int
  smincol :: int
  smaxrow :: int
  smaxcol :: int

datatype callback = RedrawMenu | CheckIfInitialized

record node =
  node_id :: int
  node_name :: string
  node_location :: string
  node_productType :: string

record wrapper =
  nodeCount :: int
  nodes :: "node list"

text \<open>
  \<open>timers\<close> lists the timer threads started by \<open>_setTimer\<close> (context, duration,
  callback), in the order they were started. \<open>dialogcoords\<close> is \<open>None\<close> when no dialog
  is open: the code sets \<open>_dialogpad\<close> and \<open>_dialogcoords\<close> together, in \<open>_initDialog\<close>
  and in \<open>_clearDialog\<close>.
\<close>

record commander =
  curAlert :: bool
  alertStack :: "string list"
  driverInitialized :: bool
  listMode :: bool
  listtop :: int
  listindex :: int
  listcount :: int
  stop :: bool
  colwidths :: "int list"
  rowheights :: "int list"
  sortcolumn :: string
  detailview :: string
  screensize :: "int \<times> int"
  dialogcoords :: "padcoords option"
  timers :: "(string \<times> nat \<times> callback option) list"
  curses :: "call list"

text \<open>
  The command table \<open>_keys\<close>, in the order of its declaration. A Python 2 dictionary is
  iterated in the order of its hashes, which the model does not know: the order matters
  to the order of the labels \<open>_updateMenu\<close> draws, and to nothing else, since a key is
  the mnemonic of at most one entry (\<open>matches_unique\<close>, \<open>handleMnemonic_any_order\<close> below).
\<close>

definition keys :: "(string \<times> string) list" where
  "keys = [(''A'', ''Add''), (''B'', ''About''), (''D'', ''Delete''), (''R'', ''Refresh''),
           (''S'', ''Setup''), (''+'', ''Increase''), (''-'', ''Decrease''), (''1'', ''On''),
           (''0'', ''Off''), (''Q'', ''Quit'')]"

definition colheaders :: "string list" where
  "colheaders = ['''', ''ID'', ''Name'', ''Location'', ''Type'', ''State'', ''Batt'', ''Signal'']"

definition detailheaders :: "string list" where
  "detailheaders = [''Info'', ''Config'', ''Values'', ''Classes'', ''Groups'']"

definition flexcols :: "nat list" where
  "flexcols = [2, 3, 4]"

definition flexrows :: "nat list" where
  "flexrows = [1, 2]"

text \<open>
  The attributes \<open>__init__\<close> sets. Those that \<open>_layoutScreen\<close> creates later (the
  widths, the heights, the sort column, the detail view, the screen size) are empty here.
\<close>

definition init :: commander where
  "init = \<lparr> curAlert = False, alertStack = [], driverInitialized = False, listMode = True,
            listtop = 0, listindex = 0, listcount = 0, stop = False,
            colwidths = [], rowheights = [], sortcolumn = [], detailview = [],
            screensize = (0, 0), dialogcoords = None, timers = [], curses = [] \<rparr>"

subsection \<open>Drawing\<close>

definition updateDialog :: "commander \<Rightarrow> commander" where
  "updateDialog s =
     (case dialogcoords s of
        None \<Rightarrow> s
      | Some dc \<Rightarrow>
          s\<lparr>curses := curses s @
              [ScreenRefresh,
               DialogRefresh 0 0 (sminrow dc) (smincol dc) (smaxrow dc) (smaxcol dc)]\<rparr>)"

definition updateColumnHeaders :: "commander \<Rightarrow> commander" where
  "updateColumnHeaders s =
     (let headers =
            map (\<lambda>(text, wid).
                   ScreenAddStr (ljust text wid)
                     (if text = sortcolumn s then (COLOR_HEADER_HI, [A_BOLD])
                      else if listMode s then (COLOR_HEADER_NORMAL, [])
                      else (COLOR_NORMAL, [A_STANDOUT])))
                (zip colheaders (colwidths s));
          clr = (if \<not> listMode s then (COLOR_HEADER_NORMAL, []) else (COLOR_NORMAL, [A_STANDOUT]));
          tabrow = rowheights s ! 0 + rowheights s ! 1 + 1;
          tabs =
            map (\<lambda>text.
                   ScreenAddStr ('' '' @ ljust text (int (length text)) @ '' '')
                     (if text = detailview s then (COLOR_HEADER_HI, [A_BOLD]) else clr))
                detailheaders
      in s\<lparr>curses := curses s @ [ScreenMove 4 0] @ headers @
             [ScreenMove tabrow 0, ScreenAddStr (ljust [] (snd (screensize s))) clr,
              ScreenMove tabrow 0] @ tabs\<rparr>)"

definition updateMenu :: "commander \<Rightarrow> commander" where
  "updateMenu s =
     (let menurow = fst (screensize s) - 1
      in s\<lparr>curses := curses s @
             [ScreenAddStrAt menurow 0 (replicate (nat (snd (screensize s) - 1)) CHR '' '')
                (COLOR_HEADER_NORMAL, []),
              ScreenMove menurow 4] @
             concat (map (\<lambda>(mnemonic, text).
                            [ScreenAddStr ('' '' @ mnemonic @ '' '') (COLOR_NORMAL, [A_BOLD]),
                             ScreenAddStr text (COLOR_HEADER_NORMAL, [])])
                         keys)\<rparr>)"

definition redrawMenu :: "commander \<Rightarrow> commander" where
  "redrawMenu s = (let s1 = updateMenu s in s1\<lparr>curses := curses s1 @ [ScreenRefresh]\<rparr>)"

subsection \<open>Layout\<close>

text \<open>
  \<open>_layoutScreen\<close>, with the result of \<open>self._screen.getmaxyx()\<close> (height, width) as
  the argument \<open>maxyx\<close>. The two \<open>for\<close> loops over the flexible members are folds that
  update the list in place; \<open>divmod\<close> of a positive number by a positive number is
  \<open>div\<close> and \<open>mod\<close>.
\<close>

definition layoutScreen :: "int \<times> int \<Rightarrow> commander \<Rightarrow> commander" where
  "layoutScreen maxyx s =
     (let colwidths0 = [1, 4, 10, 10, 20, 9, 7, 7];
          rowheights0 = [5, 5, 10, 1];
          width = snd maxyx;
          height = fst maxyx;
          cwid = foldl (\<lambda>cwid i. cwid + i) 0 colwidths0;
          flexwidth = width - cwid;
          colwidths1 =
            (if flexwidth > 0 then
               let adder = (flexwidth div int (length flexcols), flexwidth mod int (length flexcols));
                   cw = foldl (\<lambda>cw i. cw[i := cw ! i + fst adder]) colwidths0 flexcols
               in cw[last flexcols := cw ! last flexcols + snd adder]
             else colwidths0);
          cht = foldl (\<lambda>cht i. cht + i) 0 rowheights0;
          flexheight = height - cht;
          rowheights1 =
            (if flexheight > 0 then
               let adder = (flexheight div int (length flexrows), flexheight mod int (length flexrows));
                   rh = foldl (\<lambda>rh i. rh[i := rh ! i + fst adder]) rowheights0 flexrows
               in rh[last flexrows := rh ! last flexrows + snd adder]
             else rowheights0)
      in updateColumnHeaders
           (s\<lparr>curses := curses s @ [ScreenClear, NewListPad 256 256],
              colwidths := colwidths1, rowheights := rowheights1,
              sortcolumn := colheaders ! 1, detailview := detailheaders ! 0,
              screensize := maxyx\<rparr>))"

text \<open>
  A state is laid out when its widths and heights are the ones \<open>_layoutScreen\<close> computes
  for its screen size, and the terminal is at least 3 columns wide (so that every format
  width the drawing code uses is positive). Every state the program reaches after
  \<open>_initCurses\<close> on such a terminal is laid out: no other method assigns these attributes.
\<close>

definition laid_out :: "commander \<Rightarrow> bool" where
  "laid_out s \<longleftrightarrow>
     colwidths s = colwidths (layoutScreen (screensize s) s) \<and>
     rowheights s = rowheights (layoutScreen (screensize s) s) \<and>
     3 \<le> snd (screensize s)"

subsection \<open>Alerts and timers\<close>

text \<open>
  \<open>_setTimer\<close> starts a daemon thread that runs \<open>_delayloop\<close>; the model records the
  thread in \<open>timers\<close>. \<open>delayloop\<close> is what the thread does once its sleep is over.
\<close>

definition setTimer :: "string \<Rightarrow> nat \<Rightarrow> callback option \<Rightarrow> commander \<Rightarrow> commander" where
  "setTimer context duration cb s = s\<lparr>timers := timers s @ [(context, duration, cb)]\<rparr>"

definition alert :: "string \<Rightarrow> commander \<Rightarrow> commander" where
  "alert text s =
     (if \<not> curAlert s then
        setTimer ''alert'' 1 (Some RedrawMenu)
          (s\<lparr>curAlert := True,
             curses := curses s @
               [Flash,
                ScreenAddStrAt (fst (screensize s) - 1) 0
                  ('' '' @ ljust text (snd (screensize s) - 2)) (COLOR_ERROR, []),
                ScreenRefresh]\<rparr>)
      else s\<lparr>alertStack := alertStack s @ [text]\<rparr>)"

definition handleQuit :: "commander \<Rightarrow> commander" where
  "handleQuit s = s\<lparr>stop := True\<rparr>"

definition handleSetup :: "commander \<Rightarrow> commander" where
  "handleSetup s = alert ''handleSetup not yet implemented'' s"

definition checkIfInitialized :: "commander \<Rightarrow> commander" where
  "checkIfInitialized s =
     (if \<not> driverInitialized s then
        handleSetup (alert ''Unable to initialize driver - check configuration'' s)
      else s)"

definition run_callback :: "callback \<Rightarrow> commander \<Rightarrow> commander" where
  "run_callback cb s =
     (case cb of RedrawMenu \<Rightarrow> redrawMenu s | CheckIfInitialized \<Rightarrow> checkIfInitialized s)"

text \<open>\<open>list.pop()\<close> takes the last element of the list.\<close>

definition delayloop :: "string \<Rightarrow> nat \<Rightarrow> callback option \<Rightarrow> commander \<Rightarrow> commander" where
  "delayloop context duration cb s =
     (let s1 =
            (if context = ''alert'' then
               let s' = s\<lparr>curAlert := False\<rparr>
               in if alertStack s' \<noteq> [] then
                    alert (last (alertStack s')) (s'\<lparr>alertStack := butlast (alertStack s')\<rparr>)
                  else s'
             else s)
      in case cb of None \<Rightarrow> s1 | Some c \<Rightarrow> run_callback c s1)"

text \<open>The texts of the alert banners drawn so far: what was written in the error colour.\<close>

fun banners :: "call list \<Rightarrow> string list" where
  "banners [] = []"
| "banners (ScreenAddStrAt y x text a # cs) =
     (if fst a = COLOR_ERROR then text # banners cs else banners cs)"
| "banners (c # cs) = banners cs"

subsection \<open>The device list and the navigation\<close>

text \<open>
  \<open>_updateDeviceList\<close>: re-reads the node count, writes one row per node on the list
  pad (the selected row in standout) and recomputes the scroll offset \<open>_listtop\<close> from
  the selection and the height \<open>_rowheights[1]\<close> of the list band.
\<close>

definition updateDeviceList :: "wrapper \<Rightarrow> commander \<Rightarrow> commander" where
  "updateDeviceList w s =
     (let s1 = s\<lparr>listcount := nodeCount w\<rparr>;
          rows =
            map (\<lambda>(idx, node).
                   ListPadAddStr (int idx) 0
                     ('' '' @ ljust (str_int (node_id node)) (colwidths s1 ! 1)
                        @ ljust (node_name node) (colwidths s1 ! 2)
                        @ ljust (node_location node) (colwidths s1 ! 3)
                        @ ljust (node_productType node) (colwidths s1 ! 4))
                     (if int idx = listindex s1 then (COLOR_NORMAL, [A_STANDOUT])
                      else (COLOR_NORMAL, [])))
                (zip [0..<length (nodes w)] (nodes w));
          ctop = rowheights s1 ! 0;
          listheight = rowheights s1 ! 1;
          s2 = (if listindex s1 - listtop s1 > listheight then
                  s1\<lparr>listtop := listindex s1 - listheight\<rparr>
                else if listindex s1 < listtop s1 then
                  s1\<lparr>listtop := listindex s1\<rparr>
                else s1)
      in updateDialog
           (s2\<lparr>curses := curses s2 @ rows @
                [ScreenRefresh,
                 ListPadRefresh (listtop s2) 0 ctop 0 (ctop + listheight)
                   (snd (screensize s2) - 1)]\<rparr>))"

definition updateDeviceDetail :: "commander \<Rightarrow> commander" where
  "updateDeviceDetail s = s"

text \<open>\<open>n in range(0, self._listcount)\<close> holds when \<open>0 \<le> n < _listcount\<close>.\<close>

definition switchItem :: "wrapper \<Rightarrow> int \<Rightarrow> commander \<Rightarrow> commander" where
  "switchItem w delta s =
     (if listMode s then
        let n = listindex s + delta
        in if 0 \<le> n \<and> n < listcount s then
             updateDeviceDetail (updateDeviceList w (s\<lparr>listindex := n\<rparr>))
           else s
      else s)"

text \<open>\<open>list.index(x)\<close>: the first position of \<open>x\<close>, or a ValueError.\<close>

fun index :: "'a list \<Rightarrow> 'a \<Rightarrow> error + int" where
  "index [] x = Inl ValueError"
| "index (y # ys) x =
     (if y = x then Inr 0
      else case index ys x of Inl e \<Rightarrow> Inl e | Inr i \<Rightarrow> Inr (i + 1))"

definition switchTab :: "wrapper \<Rightarrow> int \<Rightarrow> commander \<Rightarrow> error + commander" where
  "switchTab w delta s =
     (case (if listMode s then
              (case index colheaders (sortcolumn s) of
                 Inl e \<Rightarrow> Inl e
               | Inr i0 \<Rightarrow>
                   let i = i0 + delta;
                       i = (if i > int (length colheaders) - 1 then 1
                            else if i < 1 then int (length colheaders) - 1
                            else i)
                   in Inr (s\<lparr>sortcolumn := colheaders ! nat i\<rparr>))
            else
              (case index detailheaders (detailview s) of
                 Inl e \<Rightarrow> Inl e
               | Inr i0 \<Rightarrow>
                   let i = i0 + delta;
                       i = (if i > int (length detailheaders) - 1 then 0
                            else if i < 0 then int (length detailheaders) - 1
                            else i)
                   in Inr (s\<lparr>detailview := detailheaders ! nat i\<rparr>))) of
        Inl e \<Rightarrow> Inl e
      | Inr s1 \<Rightarrow> Inr (updateDeviceDetail (updateDeviceList w (updateColumnHeaders s1))))"

definition nextMode :: "commander \<Rightarrow> commander" where
  "nextMode s = updateColumnHeaders (s\<lparr>listMode := \<not> listMode s\<rparr>)"

text \<open>Running a fallible step \<open>n\<close> times, stopping at the first error.\<close>

fun repeat :: "nat \<Rightarrow> ('s \<Rightarrow> error + 's) \<Rightarrow> 's \<Rightarrow> error + 's" where
  "repeat 0 f s = Inr s"
| "repeat (Suc n) f s = (case f s of Inl e \<Rightarrow> Inl e | Inr s' \<Rightarrow> repeat n f s')"

subsection \<open>Mnemonics\<close>

text \<open>
  \<open>getattr(self, funcname)\<close> for the names \<open>_handleMnemonic\<close> builds from the command
  table: the class defines \<open>_handleQuit\<close> and \<open>_handleSetup\<close>, and no handler for the
  other commands.
\<close>

definition getattr :: "string \<Rightarrow> (commander \<Rightarrow> commander) option" where
  "getattr funcname =
     (if funcname = ''_handleQuit'' then Some handleQuit
      else if funcname = ''_handleSetup'' then Some handleSetup
      else None)"

text \<open>
  The \<open>for\<close> loop of \<open>_handleMnemonic\<close> over the command table, left at the first
  entry that matches the key (\<open>break\<close>).
\<close>

fun handleMnemonic_loop :: "(string \<times> string) list \<Rightarrow> int \<Rightarrow> commander \<Rightarrow> commander" where
  "handleMnemonic_loop [] key s = s"
| "handleMnemonic_loop ((mnemonic, func) # rest) key s =
     (if key = ord (lower (hd mnemonic)) \<or> key = ord (upper (hd mnemonic)) then
        let funcname = ''_handle'' @ func
        in case getattr funcname of
             Some method \<Rightarrow> method s
           | None \<Rightarrow> alert (''No method named '' @ funcname @ '' defined!'') s
      else handleMnemonic_loop rest key s)"

definition handleMnemonic :: "int \<Rightarrow> commander \<Rightarrow> commander" where
  "handleMnemonic key s = handleMnemonic_loop keys key s"

text \<open>Whether a key is the mnemonic of a table entry, in either case of the letter.\<close>

definition matches :: "int \<Rightarrow> string \<times> string \<Rightarrow> bool" where
  "matches key entry \<longleftrightarrow>
     key = ord (lower (hd (fst entry))) \<or> key = ord (upper (hd (fst entry)))"

subsection \<open>The progress bar\<close>

text \<open>
  \<open>_addDialogProgress\<close>, in the order the code evaluates: the default width from the
  dialog's coordinates, \<open>float(current)\<close>, \<open>float(total)\<close>, their quotient, the number
  of filled cells \<open>int(pct * float(width))\<close>, and then the drawing on the dialog pad.
  Python 2 divides integers with \<open>/\<close> rounding down. Reading \<open>dc.smaxcol\<close> when no dialog
  is open (\<open>dc\<close> is \<open>None\<close>) raises AttributeError.
\<close>

definition addDialogProgress ::
    "int \<Rightarrow> int \<Rightarrow> int \<Rightarrow> bool \<Rightarrow> int option \<Rightarrow> commander \<Rightarrow> error + commander" where
  "addDialogProgress row current total' showPercent width0 s =
     (let dc = dialogcoords s
      in case (case width0 of
                 Some wd \<Rightarrow> Inr wd
               | None \<Rightarrow>
                   (case dc of
                      None \<Rightarrow> Inl AttributeError
                    | Some c \<Rightarrow> Inr ((smaxcol c - smincol c) * 2 div 3))) of
           Inl e \<Rightarrow> Inl e
         | Inr width \<Rightarrow>
        (case py_float current of
           Inl e \<Rightarrow> Inl e
         | Inr fcurrent \<Rightarrow>
        (case py_float total' of
           Inl e \<Rightarrow> Inl e
         | Inr ftotal \<Rightarrow>
        (case float_div fcurrent ftotal of
           Inl e \<Rightarrow> Inl e
         | Inr pct \<Rightarrow>
        (case py_float width of
           Inl e \<Rightarrow> Inl e
         | Inr fwidth \<Rightarrow>
        (case py_int (pct * fwidth) of
           Inl e \<Rightarrow> Inl e
         | Inr filled \<Rightarrow>
        (case dc of
           None \<Rightarrow> Inl AttributeError
         | Some c \<Rightarrow>
             let lh = (smaxcol c - smincol c) div 2 - width div 2;
                 s1 = s\<lparr>curses := curses s @
                        [DialogAddCh row (lh - 1) CHR ''['' (COLOR_NORMAL, [A_BOLD]),
                         DialogAddCh row (lh + width) CHR '']'' (COLOR_NORMAL, [A_BOLD]),
                         DialogAddStr row lh (replicate (nat width) CHR '' '')
                           (COLOR_NORMAL, []),
                         DialogAddStr row lh (replicate (nat filled) CHR ''|'')
                           (COLOR_OK, [A_BOLD])]\<rparr>;
                 s2 = (if showPercent then
                         let pctstr = fmt_pct pct;
                             lh = (smaxcol c - smincol c) div 2 - int (length pctstr) div 2
                         in s1\<lparr>curses := curses s1 @
                               [DialogAddStr row lh pctstr (COLOR_NORMAL, [A_BOLD])]\<rparr>
                       else s1)
             in Inr (updateDialog s2))))))))"

subsection \<open>Notions used in the statements\<close>

text \<open>
  The scroll relation of the list pane: the selection lies between the first visible row
  and the first visible row plus the height \<open>_rowheights[1]\<close> of the list band.
\<close>

definition viewport_ok :: "commander \<Rightarrow> bool" where
  "viewport_ok s \<longleftrightarrow> listtop s \<le> listindex s \<and> listindex s \<le> listtop s + rowheights s ! 1"

text \<open>A driver with the seven nodes of the screen sketch at the end of \<open>ozwCurses.py\<close>.\<close>

definition example_wrapper :: wrapper where
  "example_wrapper =
     \<lparr> nodeCount = 7,
       nodes =
         [\<lparr>node_id = 1, node_name = ''Controller'', node_location = '''',
           node_productType = ''Remote Controller''\<rparr>,
          \<lparr>node_id = 2, node_name = ''Sconce 1'', node_location = ''Living Room'',
           node_productType = ''Multilevel Switch''\<rparr>,
          \<lparr>node_id = 3, node_name = ''TV'', node_location = ''Living Room'',
           node_productType = ''Binary Power Switch''\<rparr>,
          \<lparr>node_id = 4, node_name = ''Liv Rm Motion'', node_location = ''Living Room'',
           node_productType = ''Motion Sensor''\<rparr>,
          \<lparr>node_id = 5, node_name = ''Sliding Door'', node_location = ''Family Room'',
           node_productType = ''Door/Window Sensor''\<rparr>,
          \<lparr>node_id = 6, node_name = ''Sconce 2'', node_location = ''Living Room'',
           node_productType = ''Multilevel Switch''\<rparr>,
          \<lparr>node_id = 7, node_name = ''Bedroom Lamp'', node_location = ''Master Bed'',
           node_productType = ''Multilevel Scene Switch''\<rparr>] \<rparr>"

text \<open>
  The thread \<open>_alert\<close> starts with \<open>_setTimer('alert', 1, self._redrawMenu)\<close>, once
  its sleep is over: the expiry of the displayed alert.
\<close>

definition alert_expiry :: "commander \<Rightarrow> commander" where
  "alert_expiry s = delayloop ''alert'' 1 (Some RedrawMenu) s"

text \<open>The string \<open>_alert\<close> writes on the last line of the screen for a message.\<close>

definition banner :: "commander \<Rightarrow> string \<Rightarrow> string" where
  "banner s text = '' '' @ ljust text (snd (screensize s) - 2)"

text \<open>
  The coordinates of the dialog that \<open>_checkInterface\<close> opens with
  \<open>_initDialog(10, 60, ...)\<close> on a terminal of 24 rows and 80 columns: the top row is
  \<open>24 / 2 - 10 / 2 = 7\<close>, the left column \<open>80 / 2 - 60 / 2 = 10\<close>, the bottom row
  \<open>7 + 10 - 1\<close> and the right column \<open>10 + 60 - 1\<close>.
\<close>

definition progress_dialog :: padcoords where
  "progress_dialog = \<lparr> sminrow = 7, smincol = 10, smaxrow = 16, smaxcol = 69 \<rparr>"

section \<open>Properties\<close>

subsection \<open>What each method leaves unchanged\<close>

lemma updateColumnHeaders_fields [simp]:
  "colwidths (updateColumnHeaders s) = colwidths s"
  "rowheights (updateColumnHeaders s) = rowheights s"
  "screensize (updateColumnHeaders s) = screensize s"
  "listMode (updateColumnHeaders s) = listMode s"
  "listtop (updateColumnHeaders s) = listtop s"
  "listindex (updateColumnHeaders s) = listindex s"
  "listcount (updateColumnHeaders s) = listcount s"
  "sortcolumn (updateColumnHeaders s) = sortcolumn s"
  "detailview (updateColumnHeaders s) = detailview s"
  by (simp_all add: updateColumnHeaders_def Let_def)

lemma updateDialog_fields [simp]:
  "colwidths (updateDialog s) = colwidths s"
  "rowheights (updateDialog s) = rowheights s"
  "screensize (updateDialog s) = screensize s"
  "listMode (updateDialog s) = listMode s"
  "listtop (updateDialog s) = listtop s"
  "listindex (updateDialog s) = listindex s"
  "listcount (updateDialog s) = listcount s"
  "sortcolumn (updateDialog s) = sortcolumn s"
  "detailview (updateDialog s) = detailview s"
  by (simp_all add: updateDialog_def split: option.splits)

lemma updateDeviceList_fields [simp]:
  "colwidths (updateDeviceList w s) = colwidths s"
  "rowheights (updateDeviceList w s) = rowheights s"
  "screensize (updateDeviceList w s) = screensize s"
  "listMode (updateDeviceList w s) = listMode s"
  "listindex (updateDeviceList w s) = listindex s"
  "listcount (updateDeviceList w s) = nodeCount w"
  "sortcolumn (updateDeviceList w s) = sortcolumn s"
  "detailview (updateDeviceList w s) = detailview s"
  by (simp_all add: updateDeviceList_def Let_def)

lemma updateDeviceList_listtop:
  "listtop (updateDeviceList w s) =
     (if listindex s - listtop s > rowheights s ! 1 then listindex s - rowheights s ! 1
      else if listindex s < listtop s then listindex s
      else listtop s)"
  by (simp add: updateDeviceList_def Let_def)

subsection \<open>The layout\<close>

lemma layout_colwidths:
  "colwidths (layoutScreen (h, w) s) =
     (if 68 < w then [1, 4, 10 + (w - 68) div 3, 10 + (w - 68) div 3,
                      20 + (w - 68) div 3 + (w - 68) mod 3, 9, 7, 7]
      else [1, 4, 10, 10, 20, 9, 7, 7])"
  by (simp add: layoutScreen_def Let_def flexcols_def)

lemma layout_rowheights:
  "rowheights (layoutScreen (h, w) s) =
     (if 21 < h then [5, 5 + (h - 21) div 2, 10 + (h - 21) div 2 + (h - 21) mod 2, 1]
      else [5, 5, 10, 1])"
  by (simp add: layoutScreen_def Let_def flexrows_def)

lemma layout_fields [simp]:
  "screensize (layoutScreen sz s) = sz"
  "listMode (layoutScreen sz s) = listMode s"
  "listtop (layoutScreen sz s) = listtop s"
  "listindex (layoutScreen sz s) = listindex s"
  "listcount (layoutScreen sz s) = listcount s"
  "sortcolumn (layoutScreen sz s) = ''ID''"
  "detailview (layoutScreen sz s) = ''Info''"
  by (simp_all add: layoutScreen_def Let_def colheaders_def detailheaders_def)

lemma laid_out_listheight:
  assumes "laid_out s"
  shows "5 \<le> rowheights s ! 1"
proof -
  obtain h w where sz: "screensize s = (h, w)" by (cases "screensize s")
  from assms have "rowheights s = rowheights (layoutScreen (h, w) s)"
    by (simp add: laid_out_def sz)
  then show ?thesis
    by (simp add: layout_rowheights)
qed

lemma laid_out_layoutScreen: "3 \<le> snd sz \<Longrightarrow> laid_out (layoutScreen sz s)"
  by (cases sz) (simp add: laid_out_def layout_colwidths layout_rowheights)

lemma laid_out_cong:
  "colwidths t = colwidths s \<Longrightarrow> rowheights t = rowheights s \<Longrightarrow> screensize t = screensize s
   \<Longrightarrow> laid_out t = laid_out s"
  by (cases "screensize s") (simp add: laid_out_def layout_colwidths layout_rowheights)

text \<open>
  C3. For every terminal width at least the sum of the initial column widths, the widths
  after \<open>_layoutScreen\<close> sum to the terminal width: each flexible column (name, location,
  type) has gained the quotient of the spare width by 3, and the last flexible column the
  remainder of that division as well; the other columns are unchanged. The same holds for
  the heights of the row bands, with the two flexible bands, for every terminal height at
  least the sum of the initial heights.
\<close>

theorem layout_distribution:
  "(sum_list [1, 4, 10, 10, 20, 9, 7, 7] \<le> width \<longrightarrow>
      (let cw = colwidths (layoutScreen (height, width) s);
           flexwidth = width - sum_list [1, 4, 10, 10, 20, 9, 7, 7];
           q = flexwidth div 3; r = flexwidth mod 3
       in sum_list cw = width \<and> cw = [1, 4, 10 + q, 10 + q, 20 + q + r, 9, 7, 7])) \<and>
   (sum_list [5, 5, 10, 1] \<le> height \<longrightarrow>
      (let rh = rowheights (layoutScreen (height, width) s);
           flexheight = height - sum_list [5, 5, 10, 1];
           q = flexheight div 2; r = flexheight mod 2
       in sum_list rh = height \<and> rh = [5, 5 + q, 10 + q + r, 1]))"
  by (simp add: layout_colwidths layout_rowheights Let_def)

text \<open>
  On a terminal of 24 rows and 75 columns the spare width is 7, shared as +2, +2, +3,
  and the spare height is 3, shared as +1, +2.
\<close>

theorem layout_distribution_witness:
  "sum_list [1, 4, 10, 10, 20, 9, 7, 7] \<le> (75::int) \<and>
   colwidths (layoutScreen (24, 75) init) = [1, 4, 12, 12, 23, 9, 7, 7] \<and>
   sum_list [5, 5, 10, 1] \<le> (24::int) \<and>
   rowheights (layoutScreen (24, 75) init) = [5, 6, 12, 1]"
  using layout_distribution [of 75 24 init] by (simp add: Let_def)

subsection \<open>Moving the selection\<close>

lemma switchItem_listMode [simp]: "listMode (switchItem w d s) = listMode s"
  by (simp add: switchItem_def updateDeviceDetail_def Let_def)

lemma switchItem_rowheights [simp]: "rowheights (switchItem w d s) = rowheights s"
  by (simp add: switchItem_def updateDeviceDetail_def Let_def)

lemma laid_out_updateDeviceList [simp]: "laid_out (updateDeviceList w s) = laid_out s"
  by (rule laid_out_cong) simp_all

lemma laid_out_switchItem [simp]: "laid_out (switchItem w d s) = laid_out s"
  by (rule laid_out_cong) (simp_all add: switchItem_def updateDeviceDetail_def Let_def)

lemma switchItem_listindex:
  "listindex (switchItem w d s) =
     (if listMode s \<and> 0 \<le> listindex s + d \<and> listindex s + d < listcount s
      then listindex s + d else listindex s)"
  by (simp add: switchItem_def updateDeviceDetail_def Let_def)

lemma switchItem_listtop:
  "listtop (switchItem w d s) =
     (if listMode s \<and> 0 \<le> listindex s + d \<and> listindex s + d < listcount s
      then (if listindex s + d - listtop s > rowheights s ! 1
            then listindex s + d - rowheights s ! 1
            else if listindex s + d < listtop s then listindex s + d
            else listtop s)
      else listtop s)"
  by (simp add: switchItem_def updateDeviceDetail_def Let_def updateDeviceList_listtop)

lemma switchItem_listcount:
  "listcount (switchItem w d s) =
     (if listMode s \<and> 0 \<le> listindex s + d \<and> listindex s + d < listcount s
      then nodeCount w else listcount s)"
  by (simp add: switchItem_def updateDeviceDetail_def Let_def)

lemma switchItem_noop:
  "\<not> (listMode s \<and> 0 \<le> listindex s + d \<and> listindex s + d < listcount s) \<Longrightarrow>
   switchItem w d s = s"
  by (auto simp add: switchItem_def Let_def)

lemma switchItem_viewport:
  assumes "0 \<le> rowheights s ! 1" and "viewport_ok s"
  shows "viewport_ok (switchItem w d s)"
  using assms
  by (simp add: viewport_ok_def switchItem_listindex switchItem_listtop)

lemma moves_viewport:
  assumes "0 \<le> rowheights s ! 1" and "viewport_ok s"
  shows "viewport_ok (foldl (\<lambda>s d. switchItem w d s) s ds)"
  using assms
proof (induction ds arbitrary: s)
  case Nil
  then show ?case by simp
next
  case (Cons d ds)
  show ?case
    using Cons.IH [of "switchItem w d s"] Cons.prems
    by (simp add: switchItem_viewport)
qed

text \<open>
  C4. From a laid out state with \<open>_listtop = 0\<close> and \<open>_listindex = 0\<close>, after any sequence
  of \<open>_switchItem(+1)\<close> and \<open>_switchItem(-1)\<close> calls (each of which, when it moves the
  selection, runs the scroll recompute of \<open>_updateDeviceList\<close>), and after every call of
  the sequence, \<open>_listtop \<le> _listindex \<le> _listtop + _rowheights[1]\<close>.
\<close>

theorem viewport_scroll_invariant:
  assumes "laid_out s" and "listtop s = 0" and "listindex s = 0"
    and "set ds \<subseteq> {1, - 1}"
  shows "\<forall>n. viewport_ok (foldl (\<lambda>s d. switchItem w d s) s (take n ds))"
proof
  fix n
  from assms(1) have h: "0 \<le> rowheights s ! 1"
    using laid_out_listheight [of s] by simp
  moreover from h assms(2,3) have "viewport_ok s"
    by (simp add: viewport_ok_def)
  ultimately show "viewport_ok (foldl (\<lambda>s d. switchItem w d s) s (take n ds))"
    by (rule moves_viewport)
qed

text \<open>Down, down, up, down on the seven nodes of the sketch, on a terminal of 21 rows.\<close>

theorem viewport_scroll_invariant_witness:
  "laid_out (layoutScreen (21, 80) init) \<and>
   viewport_ok (foldl (\<lambda>s d. switchItem example_wrapper d s)
                  (updateDeviceList example_wrapper (layoutScreen (21, 80) init))
                  [1, 1, - 1, 1])"
proof -
  let ?s = "updateDeviceList example_wrapper (layoutScreen (21, 80) init)"
  have l: "laid_out (layoutScreen (21, 80) init)"
    by (simp add: laid_out_layoutScreen)
  then have "laid_out ?s"
    by simp
  moreover have "listtop ?s = 0" "listindex ?s = 0"
    by (simp_all add: updateDeviceList_listtop init_def layout_rowheights)
  moreover have "set [1, 1, - 1, 1] \<subseteq> {1, - 1 :: int}" by simp
  ultimately have
    "viewport_ok (foldl (\<lambda>s d. switchItem example_wrapper d s) ?s (take 4 [1, 1, - 1, 1]))"
    using viewport_scroll_invariant [of ?s "[1, 1, - 1, 1]" example_wrapper] by blast
  with l show ?thesis by simp
qed

lemma switchItem_clamps:
  assumes "listMode s" and "0 \<le> listindex s" and "listindex s < listcount s"
  shows "0 \<le> listindex (switchItem w d s) \<and> listindex (switchItem w d s) < listcount s \<and>
      (if 0 \<le> listindex s + d \<and> listindex s + d < listcount s
       then listindex (switchItem w d s) = listindex s + d
       else switchItem w d s = s)"
  using assms by (auto simp add: switchItem_listindex switchItem_noop)

lemma seven_items:
  assumes a: "listMode s \<and> listcount s = 7 \<and> nodeCount w = 7 \<and> listindex s = 0 \<and>
    listtop s = 0 \<and> rowheights s ! 1 = 5"
  shows "let s6 = foldl (\<lambda>s d. switchItem w d s) s (replicate 6 1)
       in listindex s6 = 6 \<and> listtop s6 = 1 \<and> switchItem w 1 s6 = s6"
proof -
  define s1 where "s1 = switchItem w 1 s"
  define s2 where "s2 = switchItem w 1 s1"
  define s3 where "s3 = switchItem w 1 s2"
  define s4 where "s4 = switchItem w 1 s3"
  define s5 where "s5 = switchItem w 1 s4"
  define s6 where "s6 = switchItem w 1 s5"
  note sw = switchItem_listindex switchItem_listtop switchItem_listcount
  have 1: "listMode s1 \<and> listcount s1 = 7 \<and> listindex s1 = 1 \<and> listtop s1 = 0 \<and>
      rowheights s1 ! 1 = 5"
    using a by (simp add: s1_def sw)
  have 2: "listMode s2 \<and> listcount s2 = 7 \<and> listindex s2 = 2 \<and> listtop s2 = 0 \<and>
      rowheights s2 ! 1 = 5"
    using a 1 by (simp add: s2_def sw)
  have 3: "listMode s3 \<and> listcount s3 = 7 \<and> listindex s3 = 3 \<and> listtop s3 = 0 \<and>
      rowheights s3 ! 1 = 5"
    using a 2 by (simp add: s3_def sw)
  have 4: "listMode s4 \<and> listcount s4 = 7 \<and> listindex s4 = 4 \<and> listtop s4 = 0 \<and>
      rowheights s4 ! 1 = 5"
    using a 3 by (simp add: s4_def sw)
  have 5: "listMode s5 \<and> listcount s5 = 7 \<and> listindex s5 = 5 \<and> listtop s5 = 0 \<and>
      rowheights s5 ! 1 = 5"
    using a 4 by (simp add: s5_def sw)
  have 6: "listMode s6 \<and> listcount s6 = 7 \<and> listindex s6 = 6 \<and> listtop s6 = 1 \<and>
      rowheights s6 ! 1 = 5"
    using a 5 by (simp add: s6_def sw)
  have f: "foldl (\<lambda>s d. switchItem w d s) s (replicate 6 1) = s6"
    by (simp add: numeral_eq_Suc s1_def s2_def s3_def s4_def s5_def s6_def)
  have "switchItem w 1 s6 = s6"
    using 6 by (simp add: switchItem_noop)
  with 6 f show ?thesis
    by (simp add: Let_def)
qed

text \<open>
  C5. In list mode on a laid out screen, with the selection inside the \<open>_listcount\<close>
  items, \<open>_switchItem(+1)\<close> and \<open>_switchItem(-1)\<close> keep \<open>_listindex\<close> in \<open>[0, _listcount - 1]\<close>: a move inside the
  range selects the new index, and a move past either end changes nothing at all. With 7
  items, selection 0, offset 0 and a list band of height 5, six presses of "down" give
  \<open>_listindex = 6\<close> and \<open>_listtop = 1\<close>, and a seventh press changes nothing.
\<close>

theorem moveSelection_clamps:
  "(laid_out s \<and> listMode s \<and> 0 \<le> listindex s \<and> listindex s < listcount s \<and> (d = 1 \<or> d = - 1) \<longrightarrow>
      0 \<le> listindex (switchItem w d s) \<and> listindex (switchItem w d s) < listcount s \<and>
      (if 0 \<le> listindex s + d \<and> listindex s + d < listcount s
       then listindex (switchItem w d s) = listindex s + d
       else switchItem w d s = s)) \<and>
   (laid_out s \<and> listMode s \<and> listcount s = 7 \<and> nodeCount w = 7 \<and> listindex s = 0 \<and>
    listtop s = 0 \<and> rowheights s ! 1 = 5 \<longrightarrow>
      (let s6 = foldl (\<lambda>s d. switchItem w d s) s (replicate 6 1)
       in listindex s6 = 6 \<and> listtop s6 = 1 \<and> switchItem w 1 s6 = s6))"
  using switchItem_clamps [of s w d] seven_items [of s w] by blast

text \<open>
  The seven nodes of the sketch on a terminal of 21 rows, where the list band is 5 high:
  "down" from the first node selects the second, "up" from the first node does nothing,
  and six presses of "down" reach the last node and scroll by one row.
\<close>

theorem moveSelection_clamps_witness:
  "(let s0 = updateDeviceList example_wrapper (layoutScreen (21, 80) init);
        s6 = foldl (\<lambda>s d. switchItem example_wrapper d s) s0 (replicate 6 1)
    in laid_out s0 \<and> listMode s0 \<and> listcount s0 = 7 \<and> listindex s0 = 0 \<and> listtop s0 = 0 \<and>
       rowheights s0 ! 1 = 5 \<and>
       listindex (switchItem example_wrapper 1 s0) = 1 \<and>
       switchItem example_wrapper (- 1) s0 = s0 \<and>
       listindex s6 = 6 \<and> listtop s6 = 1 \<and> switchItem example_wrapper 1 s6 = s6)"
proof -
  let ?s = "updateDeviceList example_wrapper (layoutScreen (21, 80) init)"
  have h: "listMode ?s \<and> listcount ?s = 7 \<and> nodeCount example_wrapper = 7 \<and> listindex ?s = 0 \<and>
      listtop ?s = 0 \<and> rowheights ?s ! 1 = 5"
    by (simp add: updateDeviceList_listtop init_def layout_rowheights example_wrapper_def)
  have l: "laid_out ?s"
    by (simp add: laid_out_layoutScreen)
  show ?thesis
    using h l moveSelection_clamps [of ?s 1 example_wrapper]
      moveSelection_clamps [of ?s "- 1" example_wrapper]
    by (simp add: Let_def)
qed

subsection \<open>Cycling the sort column\<close>

lemma switchTab_list_step:
  assumes "listMode s" and "sortcolumn s = colheaders ! i" and "1 \<le> i" and "i \<le> 7"
  shows "\<exists>s1. switchTab w 1 s = Inr s1 \<and> listMode s1 \<and>
           sortcolumn s1 = colheaders ! (if i = 7 then 1 else i + 1)"
proof -
  from assms(3,4) have "i = 1 \<or> i = 2 \<or> i = 3 \<or> i = 4 \<or> i = 5 \<or> i = 6 \<or> i = 7"
    by arith
  then show ?thesis
    using assms(1,2)
    by (elim disjE) (simp_all add: switchTab_def colheaders_def updateDeviceDetail_def Let_def)
qed

lemma repeat_switchTab:
  assumes "listMode s" and "sortcolumn s = colheaders ! i" and "1 \<le> i" and "i \<le> 7"
  shows "\<exists>s'. repeat k (switchTab w 1) s = Inr s' \<and> listMode s' \<and>
           sortcolumn s' = colheaders ! ((i - 1 + k) mod 7 + 1)"
  using assms
proof (induction k arbitrary: s i)
  case 0
  then show ?case by simp
next
  case (Suc k)
  let ?j = "if i = 7 then 1 else i + 1"
  from switchTab_list_step [OF Suc.prems, of w]
  obtain s1 where s1: "switchTab w 1 s = Inr s1" "listMode s1" "sortcolumn s1 = colheaders ! ?j"
    by blast
  have j: "1 \<le> ?j" "?j \<le> 7" using Suc.prems by auto
  from Suc.IH [OF s1(2) s1(3) j]
  obtain s' where s': "repeat k (switchTab w 1) s1 = Inr s'" "listMode s'"
      "sortcolumn s' = colheaders ! ((?j - 1 + k) mod 7 + 1)"
    by blast
  have "(?j - 1 + k) mod 7 = (i - 1 + Suc k) mod 7"
    using Suc.prems(3,4) by (auto simp add: mod_Suc)
  with s1 s' show ?case by simp
qed

lemma sortable_index:
  assumes "c \<in> set (tl colheaders)"
  shows "\<exists>i. 1 \<le> i \<and> i \<le> 7 \<and> c = colheaders ! i"
proof -
  have "\<exists>i. (1::nat) \<le> i \<and> i \<le> 7 \<and> c = xs ! i"
    if "c \<in> set (tl xs)" and "length xs = 8" for xs :: "string list"
  proof -
    from that obtain j where j: "j < 7" "c = tl xs ! j"
      by (auto simp add: in_set_conv_nth)
    with that have "c = xs ! Suc j"
      by (simp add: nth_tl)
    with j show ?thesis
      by (intro exI [of _ "Suc j"]) simp
  qed
  from this [OF assms] show ?thesis
    by (simp add: colheaders_def)
qed

lemma colheaders_sortable:
  assumes "1 \<le> i" and "i \<le> 7"
  shows "colheaders ! i \<in> set (tl colheaders)"
proof -
  from assms have "i = 1 \<or> i = 2 \<or> i = 3 \<or> i = 4 \<or> i = 5 \<or> i = 6 \<or> i = 7"
    by arith
  then show ?thesis
    by (elim disjE) (simp_all add: colheaders_def)
qed

text \<open>
  C6. In list mode, from every sortable column (every column header but the first, the
  selection indicator), \<open>_switchTab(+1)\<close> applied as many times as there are sortable
  columns returns without error and brings the sort column back to where it started; and
  after any number of \<open>_switchTab(+1)\<close> calls the sort column is a sortable column, never
  the indicator column.
\<close>

theorem sort_column_cycle:
  assumes "laid_out s" and "listMode s" and "sortcolumn s \<in> set (tl colheaders)"
  shows "(\<exists>s'. repeat (length (tl colheaders)) (switchTab w 1) s = Inr s' \<and>
            sortcolumn s' = sortcolumn s) \<and>
         (\<forall>k. \<exists>s'. repeat k (switchTab w 1) s = Inr s' \<and>
            sortcolumn s' \<in> set (tl colheaders) \<and> sortcolumn s' \<noteq> hd colheaders)"
proof -
  from sortable_index [OF assms(3)]
  obtain i where i: "1 \<le> i" "i \<le> 7" "sortcolumn s = colheaders ! i" by blast
  have len: "length (tl colheaders) = 7" by (simp add: colheaders_def)
  have nothd: "\<And>c. c \<in> set (tl colheaders) \<Longrightarrow> c \<noteq> hd colheaders"
    by (auto simp add: colheaders_def)
  have "\<exists>s'. repeat 7 (switchTab w 1) s = Inr s' \<and> sortcolumn s' = sortcolumn s"
  proof -
    from repeat_switchTab [OF assms(2) i(3) i(1) i(2), of 7 w]
    obtain s' where s': "repeat 7 (switchTab w 1) s = Inr s'"
       "sortcolumn s' = colheaders ! ((i - 1 + 7) mod 7 + 1)" by blast
    have "(i - 1 + 7) mod 7 + 1 = i"
    proof -
      from i(1,2) have "i = 1 \<or> i = 2 \<or> i = 3 \<or> i = 4 \<or> i = 5 \<or> i = 6 \<or> i = 7"
        by arith
      then show ?thesis by (elim disjE) simp_all
    qed
    with s'(2) have "sortcolumn s' = colheaders ! i" by (simp only:)
    with s'(1) i(3) show ?thesis by (intro exI [of _ s']) (simp only: simp_thms)
  qed
  moreover have "\<exists>s'. repeat k (switchTab w 1) s = Inr s' \<and>
            sortcolumn s' \<in> set (tl colheaders) \<and> sortcolumn s' \<noteq> hd colheaders" for k
  proof -
    from repeat_switchTab [OF assms(2) i(3) i(1) i(2), of k w]
    obtain s' where s': "repeat k (switchTab w 1) s = Inr s'"
       "sortcolumn s' = colheaders ! ((i - 1 + k) mod 7 + 1)" by blast
    have "colheaders ! ((i - 1 + k) mod 7 + 1) \<in> set (tl colheaders)"
      by (rule colheaders_sortable) simp_all
    with s' nothd show ?thesis by auto
  qed
  ultimately show ?thesis using len by simp
qed

text \<open>Right after the layout the sort column is ID; seven steps to the right return to it.\<close>

theorem sort_column_cycle_witness:
  "laid_out (layoutScreen (24, 80) init) \<and> listMode (layoutScreen (24, 80) init) \<and>
   sortcolumn (layoutScreen (24, 80) init) = ''ID'' \<and>
   (\<exists>s'. repeat 7 (switchTab example_wrapper 1) (layoutScreen (24, 80) init) = Inr s' \<and>
      sortcolumn s' = ''ID'')"
proof -
  let ?s = "layoutScreen (24, 80) init"
  have h: "laid_out ?s" "listMode ?s" "sortcolumn ?s \<in> set (tl colheaders)"
    by (simp_all add: laid_out_layoutScreen init_def colheaders_def)
  have "length (tl colheaders) = 7" by (simp add: colheaders_def)
  with sort_column_cycle [OF h, of example_wrapper] h(1,2) show ?thesis
    by simp
qed

subsection \<open>Toggling the mode\<close>

text \<open>
  C8. \<open>_nextMode\<close> flips the mode between list and detail, and leaves the selected
  index, the scroll offset, the sort column and the detail tab as they were.
\<close>

theorem nextMode_frame:
  assumes "laid_out s"
  shows "listMode (nextMode s) = (\<not> listMode s) \<and>
         listindex (nextMode s) = listindex s \<and>
         listtop (nextMode s) = listtop s \<and>
         sortcolumn (nextMode s) = sortcolumn s \<and>
         detailview (nextMode s) = detailview s"
  by (simp add: nextMode_def)

text \<open>
  With the fourth node of the sketch selected, the tab key enters detail mode and a
  second tab key returns to list mode; the selection stays on the fourth node.
\<close>

theorem nextMode_frame_witness:
  "laid_out (switchItem example_wrapper 1 (switchItem example_wrapper 1 (switchItem example_wrapper 1
     (updateDeviceList example_wrapper (layoutScreen (24, 80) init))))) \<and>
   \<not> listMode (nextMode (switchItem example_wrapper 1 (switchItem example_wrapper 1
     (switchItem example_wrapper 1
       (updateDeviceList example_wrapper (layoutScreen (24, 80) init)))))) \<and>
   listindex (nextMode (switchItem example_wrapper 1 (switchItem example_wrapper 1
     (switchItem example_wrapper 1
       (updateDeviceList example_wrapper (layoutScreen (24, 80) init)))))) = 3"
proof -
  let ?s0 = "updateDeviceList example_wrapper (layoutScreen (24, 80) init)"
  let ?s = "switchItem example_wrapper 1 (switchItem example_wrapper 1
              (switchItem example_wrapper 1 ?s0))"
  have l: "laid_out ?s"
    by (simp add: laid_out_layoutScreen)
  have "listMode ?s" "listindex ?s = 3"
    by (simp_all add: switchItem_listindex switchItem_listcount init_def example_wrapper_def)
  with l nextMode_frame [OF l] show ?thesis
    by simp
qed

subsection \<open>Mnemonics\<close>

lemma ord_simps:
  "ord (lower CHR ''A'') = 97" "ord (upper CHR ''A'') = 65"
  "ord (lower CHR ''B'') = 98" "ord (upper CHR ''B'') = 66"
  "ord (lower CHR ''D'') = 100" "ord (upper CHR ''D'') = 68"
  "ord (lower CHR ''R'') = 114" "ord (upper CHR ''R'') = 82"
  "ord (lower CHR ''S'') = 115" "ord (upper CHR ''S'') = 83"
  "ord (lower CHR ''+'') = 43" "ord (upper CHR ''+'') = 43"
  "ord (lower CHR ''-'') = 45" "ord (upper CHR ''-'') = 45"
  "ord (lower CHR ''1'') = 49" "ord (upper CHR ''1'') = 49"
  "ord (lower CHR ''0'') = 48" "ord (upper CHR ''0'') = 48"
  "ord (lower CHR ''Q'') = 113" "ord (upper CHR ''Q'') = 81"
  by (simp_all add: ord_def lower_def upper_def)

lemma banners_append: "banners (xs @ ys) = banners xs @ banners ys"
  by (induction xs rule: banners.induct) simp_all

lemma alert_queues: "curAlert s \<Longrightarrow> alert x s = s\<lparr>alertStack := alertStack s @ [x]\<rparr>"
  by (simp add: alert_def)

lemma alert_displays:
  assumes "\<not> curAlert s"
  shows "curAlert (alert x s)" and "alertStack (alert x s) = alertStack s"
    and "screensize (alert x s) = screensize s"
    and "banners (curses (alert x s)) = banners (curses s) @ [banner s x]"
    and "timers (alert x s) = timers s @ [(''alert'', 1, Some RedrawMenu)]"
  using assms
  by (simp_all add: alert_def setTimer_def banner_def banners_append)







text \<open>
  The order in which the table is iterated does not matter to \<open>_handleMnemonic\<close>: a
  key matches at most one entry, so the loop over any arrangement of the entries does what
  the loop over the declaration order does.
\<close>

lemma find_matches_keys:
  assumes "e \<in> set keys" and "matches key e"
  shows "find (matches key) keys = Some e"
proof -
  from assms(1) have
    "e = (''A'', ''Add'') \<or> e = (''B'', ''About'') \<or> e = (''D'', ''Delete'') \<or>
     e = (''R'', ''Refresh'') \<or> e = (''S'', ''Setup'') \<or> e = (''+'', ''Increase'') \<or>
     e = (''-'', ''Decrease'') \<or> e = (''1'', ''On'') \<or> e = (''0'', ''Off'') \<or>
     e = (''Q'', ''Quit'')"
    by (simp add: keys_def)
  then show ?thesis
    using assms(2)
    by (elim disjE) (auto simp add: matches_def ord_simps keys_def)
qed

lemma matches_unique:
  assumes "e1 \<in> set keys" and "e2 \<in> set keys" and "matches key e1" and "matches key e2"
  shows "e1 = e2"
  using find_matches_keys [OF assms(1,3)] find_matches_keys [OF assms(2,4)] by simp

lemma handleMnemonic_loop_find:
  "handleMnemonic_loop ks key s =
     (case find (matches key) ks of
        None \<Rightarrow> s
      | Some e \<Rightarrow>
          (case getattr (''_handle'' @ snd e) of
             Some method \<Rightarrow> method s
           | None \<Rightarrow> alert (''No method named '' @ (''_handle'' @ snd e) @ '' defined!'') s))"
  by (induction ks) (auto simp add: matches_def Let_def split: option.splits)

lemma find_matches_any_order:
  assumes "set ks = set keys"
  shows "find (matches key) ks = find (matches key) keys"
proof (cases "find (matches key) keys")
  case None
  then have "\<forall>e \<in> set ks. \<not> matches key e"
    using assms by (auto simp add: find_None_iff)
  then have "find (matches key) ks = None"
    by (auto simp add: find_None_iff)
  with None show ?thesis
    by simp
next
  case (Some e)
  then have e: "e \<in> set keys" "matches key e"
    by (auto simp add: find_Some_iff)
  with assms have "\<exists>x \<in> set ks. matches key x" by auto
  then obtain e' where e': "find (matches key) ks = Some e'"
    by (cases "find (matches key) ks") (auto simp add: find_None_iff)
  then have "e' \<in> set ks" "matches key e'"
    by (auto simp add: find_Some_iff)
  with assms e have "e' = e"
    by (auto intro: matches_unique)
  with e' Some show ?thesis by simp
qed

lemma handleMnemonic_any_order:
  assumes "set ks = set keys"
  shows "handleMnemonic_loop ks key s = handleMnemonic key s"
  by (simp add: handleMnemonic_def handleMnemonic_loop_find find_matches_any_order [OF assms])

subsection \<open>The alert backlog\<close>

lemma banners_redrawMenu: "banners (curses (redrawMenu s)) = banners (curses s)"
  by (simp add: redrawMenu_def updateMenu_def Let_def banners_append keys_def
        COLOR_ERROR_def COLOR_HEADER_NORMAL_def)

lemma redrawMenu_fields [simp]:
  "curAlert (redrawMenu s) = curAlert s"
  "alertStack (redrawMenu s) = alertStack s"
  "screensize (redrawMenu s) = screensize s"
  "timers (redrawMenu s) = timers s"
  by (simp_all add: redrawMenu_def updateMenu_def Let_def)

lemma expiry_promotes:
  assumes "alertStack s \<noteq> []"
  shows "curAlert (alert_expiry s)" and "alertStack (alert_expiry s) = butlast (alertStack s)"
    and "screensize (alert_expiry s) = screensize s"
    and "banners (curses (alert_expiry s)) = banners (curses s) @ [banner s (last (alertStack s))]"
    and "timers (alert_expiry s) = timers s @ [(''alert'', 1, Some RedrawMenu)]"
  using assms
  by (simp_all add: alert_expiry_def delayloop_def run_callback_def Let_def banners_redrawMenu
        alert_displays banner_def)

lemma expiry_clears:
  assumes "alertStack s = []"
  shows "\<not> curAlert (alert_expiry s)" and "alertStack (alert_expiry s) = []"
    and "banners (curses (alert_expiry s)) = banners (curses s)"
    and "timers (alert_expiry s) = timers s"
  using assms
  by (simp_all add: alert_expiry_def delayloop_def run_callback_def Let_def banners_redrawMenu)

lemma backlog_scenario:
  assumes "\<not> curAlert s" and "alertStack s = []"
  shows "let s3 = alert c (alert b (alert a s))
         in curAlert s3 \<and> alertStack s3 = [b, c] \<and>
            banners (curses s3) = banners (curses s) @ [banner s a] \<and>
            banners (curses (alert_expiry s3)) = banners (curses s) @ [banner s a, banner s c] \<and>
            banners (curses (alert_expiry (alert_expiry s3))) =
              banners (curses s) @ [banner s a, banner s c, banner s b] \<and>
            banners (curses (alert_expiry (alert_expiry (alert_expiry s3)))) =
              banners (curses s) @ [banner s a, banner s c, banner s b] \<and>
            \<not> curAlert (alert_expiry (alert_expiry (alert_expiry s3)))"
proof -
  define s1 where "s1 = alert a s"
  define s3 where "s3 = alert c (alert b s1)"
  define e1 where "e1 = alert_expiry s3"
  define e2 where "e2 = alert_expiry e1"
  define e3 where "e3 = alert_expiry e2"
  have 1: "curAlert s1" "alertStack s1 = []" "screensize s1 = screensize s"
      "banners (curses s1) = banners (curses s) @ [banner s a]"
    using assms by (simp_all add: s1_def alert_displays)
  have 3: "curAlert s3" "alertStack s3 = [b, c]" "screensize s3 = screensize s"
      "banners (curses s3) = banners (curses s) @ [banner s a]"
    using 1 by (simp_all add: s3_def alert_queues)
  have 4: "curAlert e1" "alertStack e1 = [b]" "screensize e1 = screensize s"
      "banners (curses e1) = banners (curses s) @ [banner s a, banner s c]"
    using 3 by (simp_all add: e1_def expiry_promotes banner_def)
  have 5: "curAlert e2" "alertStack e2 = []" "screensize e2 = screensize s"
      "banners (curses e2) = banners (curses s) @ [banner s a, banner s c, banner s b]"
    using 4 by (simp_all add: e2_def expiry_promotes banner_def)
  have 6: "\<not> curAlert e3"
      "banners (curses e3) = banners (curses s) @ [banner s a, banner s c, banner s b]"
    using 5 by (simp_all add: e3_def expiry_clears)
  from 3 4 5 6 show ?thesis
    by (simp add: Let_def s3_def [symmetric] s1_def [symmetric] e1_def [symmetric]
          e2_def [symmetric] e3_def [symmetric])
qed

lemma laid_out_alert [simp]: "laid_out (alert x s) = laid_out s"
  by (rule laid_out_cong) (simp_all add: alert_def setTimer_def)

lemma fresh_screen:
  "\<not> curAlert (layoutScreen sz init)" "alertStack (layoutScreen sz init) = []"
  "banners (curses (layoutScreen sz init)) = []"
  by (simp_all add: layoutScreen_def updateColumnHeaders_def Let_def init_def banners_append
        colheaders_def detailheaders_def flexcols_def flexrows_def)

text \<open>
  C1, as the code has it. The backlog \<open>_alertStack\<close> is a stack: \<open>_alert\<close> appends at the
  end and the expiry pops from the end. When no alert is displayed and the backlog is
  empty, raising A, then B, then C displays A and queues B and C; the banners are then
  drawn in the order A, C, B, one at each expiry, and the third expiry leaves no alert
  displayed. In general an expiry with a backlog promotes the last (newest) queued message
  and starts a new timer, and a raise while an alert is displayed only appends the message
  to the backlog: the displayed alert is not dropped and nothing is drawn. (The order is
  that of the drawing: the expiry that promotes a message goes on to redraw the menu on
  the same line.)
\<close>

theorem alert_backlog_lifo:
  "(laid_out s \<and> \<not> curAlert s \<and> alertStack s = [] \<longrightarrow>
      (let s3 = alert c (alert b (alert a s))
       in curAlert s3 \<and> alertStack s3 = [b, c] \<and>
          banners (curses s3) = banners (curses s) @ [banner s a] \<and>
          banners (curses (alert_expiry s3)) = banners (curses s) @ [banner s a, banner s c] \<and>
          banners (curses (alert_expiry (alert_expiry s3))) =
            banners (curses s) @ [banner s a, banner s c, banner s b] \<and>
          banners (curses (alert_expiry (alert_expiry (alert_expiry s3)))) =
            banners (curses s) @ [banner s a, banner s c, banner s b] \<and>
          \<not> curAlert (alert_expiry (alert_expiry (alert_expiry s3))))) \<and>
   (laid_out s \<and> alertStack s \<noteq> [] \<longrightarrow>
      curAlert (alert_expiry s) \<and> alertStack (alert_expiry s) = butlast (alertStack s) \<and>
      banners (curses (alert_expiry s)) = banners (curses s) @ [banner s (last (alertStack s))] \<and>
      timers (alert_expiry s) = timers s @ [(''alert'', 1, Some RedrawMenu)]) \<and>
   (laid_out s \<and> curAlert s \<longrightarrow> alert a s = s\<lparr>alertStack := alertStack s @ [a]\<rparr>)"
  using backlog_scenario [of s c b a] expiry_promotes [of s] alert_queues [of s a]
  by blast

text \<open>
  The claim as the specification states it fails on a fresh screen of 24 rows and 80
  columns: with A displayed and B, then C raised, the banners are drawn in the order
  A, C, B and not A, B, C.
\<close>

theorem alert_backlog_fifo_counterexample:
  "banners (curses (alert_expiry (alert_expiry (alert_expiry
      (alert ''C'' (alert ''B'' (alert ''A'' (layoutScreen (24, 80) init)))))))) =
     [banner (layoutScreen (24, 80) init) ''A'', banner (layoutScreen (24, 80) init) ''C'',
      banner (layoutScreen (24, 80) init) ''B''] \<and>
   banners (curses (alert_expiry (alert_expiry (alert_expiry
      (alert ''C'' (alert ''B'' (alert ''A'' (layoutScreen (24, 80) init)))))))) \<noteq>
     [banner (layoutScreen (24, 80) init) ''A'', banner (layoutScreen (24, 80) init) ''B'',
      banner (layoutScreen (24, 80) init) ''C'']"
proof -
  let ?s = "layoutScreen (24, 80) init"
  have "banner ?s ''C'' \<noteq> banner ?s ''B''"
    by (simp add: banner_def ljust_def)
  with backlog_scenario [OF fresh_screen(1,2), of "''C''" "''B''" "''A''" "(24, 80)"]
  show ?thesis
    by (simp add: Let_def fresh_screen)
qed

text \<open>
  Three messages on a fresh screen of 24 rows and 100 columns; the second part of the
  theorem at the state where "first" is displayed and two messages wait, and the third
  part at the state where "first" is displayed.
\<close>

theorem alert_backlog_lifo_witness:
  "laid_out (layoutScreen (24, 100) init) \<and>
   banners (curses (alert_expiry (alert_expiry
      (alert ''third'' (alert ''second'' (alert ''first'' (layoutScreen (24, 100) init))))))) =
     [banner (layoutScreen (24, 100) init) ''first'',
      banner (layoutScreen (24, 100) init) ''third'',
      banner (layoutScreen (24, 100) init) ''second''] \<and>
   alertStack (alert_expiry
      (alert ''third'' (alert ''second'' (alert ''first'' (layoutScreen (24, 100) init))))) =
     [''second''] \<and>
   alertStack (alert ''second'' (alert ''first'' (layoutScreen (24, 100) init))) = [''second'']"
proof -
  let ?s = "layoutScreen (24, 100) init"
  let ?s1 = "alert ''first'' ?s"
  let ?s3 = "alert ''third'' (alert ''second'' ?s1)"
  have l: "laid_out ?s"
    by (simp add: laid_out_layoutScreen)
  have l1: "laid_out ?s1"
    using l by simp
  have c1: "curAlert ?s1" "alertStack ?s1 = []"
    by (simp_all add: alert_displays fresh_screen)
  have l3: "laid_out ?s3"
    using l by simp
  have k3: "alertStack ?s3 = [''second'', ''third'']"
    using c1 by (simp add: alert_queues)
  from alert_backlog_lifo [of ?s "''third''" "''second''" "''first''"] l
  have "banners (curses (alert_expiry (alert_expiry ?s3))) =
      [banner ?s ''first'', banner ?s ''third'', banner ?s ''second'']"
    by (simp add: Let_def fresh_screen)
  moreover from alert_backlog_lifo [of ?s3 "''x''" "''y''" "''z''"] l3 k3
  have "alertStack (alert_expiry ?s3) = [''second'']"
    by simp
  moreover from alert_backlog_lifo [of ?s1 "''x''" "''y''" "''second''"] l1 c1
  have "alertStack (alert ''second'' ?s1) = [''second'']"
    by simp
  ultimately show ?thesis
    using l by (intro conjI)
qed

subsection \<open>The progress bar\<close>

lemma py_float_zero: "py_float 0 = Inr 0"
  by (simp add: py_float_def overflows_def)

lemma progress_zero_total_raises:
  "\<exists>e. addDialogProgress row current 0 showPercent width0 s = Inl e"
  by (simp add: addDialogProgress_def py_float_zero float_div_def Let_def
        split: option.splits sum.splits)

lemma progress_zero_total:
  assumes "dialogcoords s \<noteq> None" and "\<not> overflows (of_int current)"
  shows "addDialogProgress row current 0 showPercent width0 s = Inl ZeroDivisionError"
proof -
  from assms(2) have "py_float current = Inr (of_int current)"
    by (simp add: py_float_def)
  with assms(1) show ?thesis
    by (auto simp add: addDialogProgress_def py_float_zero float_div_def Let_def
          split: option.splits)
qed

lemma progress_nonzero_total:
  assumes "t \<noteq> 0"
  shows "addDialogProgress row current t showPercent width0 s \<noteq> Inl ZeroDivisionError"
  using assms
  by (auto simp add: addDialogProgress_def py_float_def py_int_def float_div_def Let_def
        split: option.splits sum.splits)

text \<open>
  C2, as the code has it. \<open>_addDialogProgress\<close> has no guard on \<open>total\<close>: for every row,
  current value, width and percent flag, a total of 0 ends in an error and draws nothing.
  With a dialog open and a current value that \<open>float\<close> can convert, the error is the
  ZeroDivisionError of \<open>float(current) / float(total)\<close>; and no total other than 0
  raises ZeroDivisionError.
\<close>

theorem progress_zero_total_unguarded:
  "(\<exists>e. addDialogProgress row current 0 showPercent width0 s = Inl e) \<and>
   (dialogcoords s \<noteq> None \<and> \<not> overflows (of_int current) \<longrightarrow>
      addDialogProgress row current 0 showPercent width0 s = Inl ZeroDivisionError) \<and>
   (\<forall>t. t \<noteq> 0 \<longrightarrow>
      addDialogProgress row current t showPercent width0 s \<noteq> Inl ZeroDivisionError)"
  using progress_zero_total_raises [of row current showPercent width0 s]
    progress_zero_total [of s current row showPercent width0]
    progress_nonzero_total [of _ row current showPercent width0 s]
  by blast

text \<open>
  The claim as the specification states it fails on the progress dialog of a terminal of
  24 rows and 80 columns: \<open>_addDialogProgress(5, 0, 0)\<close> raises ZeroDivisionError
  instead of drawing a bar of 0%.
\<close>

theorem progress_zero_total_counterexample:
  "addDialogProgress 5 0 0 True None
     ((layoutScreen (24, 80) init)\<lparr>dialogcoords := Some progress_dialog\<rparr>) =
   Inl ZeroDivisionError"
  by (simp add: progress_zero_total overflows_def)

text \<open>Three nodes ready out of none raises; three out of seven does not.\<close>

theorem progress_zero_total_unguarded_witness:
  "dialogcoords ((layoutScreen (24, 80) init)\<lparr>dialogcoords := Some progress_dialog\<rparr>) \<noteq> None \<and>
   \<not> overflows (of_int 3) \<and>
   addDialogProgress 5 3 0 True None
     ((layoutScreen (24, 80) init)\<lparr>dialogcoords := Some progress_dialog\<rparr>) =
     Inl ZeroDivisionError \<and>
   addDialogProgress 5 3 7 True None
     ((layoutScreen (24, 80) init)\<lparr>dialogcoords := Some progress_dialog\<rparr>) \<noteq>
     Inl ZeroDivisionError"
  using progress_zero_total_unguarded
    [of 5 3 True None "(layoutScreen (24, 80) init)\<lparr>dialogcoords := Some progress_dialog\<rparr>"]
  by (simp add: overflows_def)

end
